theory Spec2Isabelle
  imports Main
begin

section \<open>JavaScript numbers and strings\<close>

text \<open>
  A JavaScript \<open>number\<close> as the assessment uses it: an integer or \<open>NaN\<close>.
  Scores, ages and question ids of this application are integers; fractional values and
  infinities are outside the model.
\<close>

datatype number = NaN | Num int

fun num_add :: "number \<Rightarrow> number \<Rightarrow> number" where
  "num_add (Num a) (Num b) = Num (a + b)"
| "num_add _ _ = NaN"

definition digit_of :: "nat \<Rightarrow> char" where
  "digit_of d = ''0123456789'' ! d"

fun string_of_nat :: "nat \<Rightarrow> string" where
  "string_of_nat n =
     (if n < 10 then [digit_of n] else string_of_nat (n div 10) @ [digit_of (n mod 10)])"

declare string_of_nat.simps [simp del]

text \<open>\<open>String(n)\<close> for a number: decimal digits, a leading minus sign, or \<open>NaN\<close>.\<close>

fun String_number :: "number \<Rightarrow> string" where
  "String_number NaN = ''NaN''"
| "String_number (Num i) =
     (if i < 0 then CHR ''-'' # string_of_nat (nat (- i)) else string_of_nat (nat i))"

definition digit_val :: "char \<Rightarrow> nat option" where
  "digit_val =
     map_of [(CHR ''0'', 0), (CHR ''1'', 1), (CHR ''2'', 2), (CHR ''3'', 3), (CHR ''4'', 4),
             (CHR ''5'', 5), (CHR ''6'', 6), (CHR ''7'', 7), (CHR ''8'', 8), (CHR ''9'', 9)]"

definition is_digit :: "char \<Rightarrow> bool" where
  "is_digit c = (digit_val c \<noteq> None)"

definition is_white_space :: "char \<Rightarrow> bool" where
  "is_white_space c = (c \<in> set [CHR 0x09, CHR 0x0A, CHR 0x0B, CHR 0x0C, CHR 0x0D, CHR '' ''])"

definition digits_value :: "string \<Rightarrow> nat" where
  "digits_value ds = foldl (\<lambda>acc c. 10 * acc + the (digit_val c)) 0 ds"

text \<open>
  \<open>parseInt(s, 10)\<close>: leading white space is skipped, one sign is read, then the longest
  prefix of decimal digits; with no digit the result is \<open>NaN\<close>.
\<close>

definition parseInt :: "string \<Rightarrow> number" where
  "parseInt s =
     (let t = dropWhile is_white_space s;
          neg = (t \<noteq> [] \<and> hd t = CHR ''-'');
          u = (if t \<noteq> [] \<and> (hd t = CHR ''-'' \<or> hd t = CHR ''+'') then tl t else t);
          z = takeWhile is_digit u
      in if z = [] then NaN
         else Num ((if neg then - 1 else 1) * int (digits_value z)))"

section \<open>The catalog module\<close>

datatype Language = En | Hi

record BiText =
  en :: string
  hi :: string

record QOption =
  o_text :: BiText
  o_score :: number

record Question =
  q_id :: int
  q_trait :: string
  questionText :: BiText
  options :: "QOption list"

text \<open>The texts of \<open>translations[lang]\<close> that the modelled components read.\<close>

record Translations =
  toast_title :: string
  toast_description :: string
  traits :: "string \<Rightarrow> string"
  score_label :: string
  finalAssessment_tr :: "string \<Rightarrow> string"

text \<open>
  The exports of \<open>lib/assessment-data.ts\<close>. The module is not among the sources, so the
  components take it as a parameter: the question catalog, the feedback functions and the
  translation tables.
\<close>

record assessment_data =
  questions :: "Question list"
  getIndividualFeedback :: "string \<Rightarrow> number \<Rightarrow> Language \<Rightarrow> string"
  getFinalFeedback :: "number \<Rightarrow> Language \<Rightarrow> string"
  getFinalAssessment :: "string \<Rightarrow> Language \<Rightarrow> string"
  translations_of :: "Language \<Rightarrow> Translations"

section \<open>Records passed between the steps\<close>

record AnswerDetail =
  a_id :: int
  trait :: string
  score :: number
  feedback :: string

record UserInfo =
  name :: string
  name_hi :: string
  age :: number
  gender :: string
  countryCode :: string
  mobile :: string
  email :: "string option"
  state :: string
  district :: string

record CertificateData = UserInfo +
  date :: string
  assessmentData :: "AnswerDetail list"
  finalAssessmentText :: string

record SubmissionData =
  s_name :: string
  s_name_hi :: string
  s_age :: number
  s_gender :: string
  s_mobile :: string
  s_email :: string
  s_countryCode :: string
  s_state :: string
  s_district :: string
  s_assessmentData :: "AnswerDetail list"
  totalScore :: number
  s_finalAssessmentText :: string
  s_date :: string

record Toast =
  t_title :: string
  t_description :: string
  variant :: string

datatype js_error = TypeError string | Error string

text \<open>What a handler or an effect does to the world outside its component.\<close>

datatype effect =
    ShowToast Toast
  | OnComplete "AnswerDetail list"
  | OnSubmit UserInfo
  | LocalStorageSetItem string CertificateData
  | FetchPost string SubmissionData

section \<open>AssessmentStep\<close>

record AssessmentState =
  showInstructions :: bool
  currentQuestionIndex :: nat
  answers :: "AnswerDetail list"
  selectedOption :: "string option"
  currentFeedback :: "string option"

definition AssessmentStep_init :: AssessmentState where
  "AssessmentStep_init =
     \<lparr>showInstructions = True, currentQuestionIndex = 0, answers = [],
      selectedOption = None, currentFeedback = None\<rparr>"

definition beginAssessment :: "AssessmentState \<Rightarrow> AssessmentState" where
  "beginAssessment st = st\<lparr>showInstructions := False\<rparr>"

text \<open>
  \<open>questions[currentQuestionIndex]\<close>: \<open>undefined\<close> out of range, and reading a field of
  it throws a \<open>TypeError\<close>.
\<close>

definition currentQuestion :: "assessment_data \<Rightarrow> AssessmentState \<Rightarrow> js_error + Question" where
  "currentQuestion m st =
     (if currentQuestionIndex st < length (questions m)
      then Inr (questions m ! currentQuestionIndex st)
      else Inl (TypeError ''Cannot read properties of undefined''))"

definition handleOptionChange ::
  "assessment_data \<Rightarrow> Language \<Rightarrow> string \<Rightarrow> AssessmentState \<Rightarrow> js_error + AssessmentState" where
  "handleOptionChange m lang v st =
     (case currentQuestion m st of
        Inl e \<Rightarrow> Inl e
      | Inr q \<Rightarrow>
          Inr (st\<lparr>selectedOption := Some v,
                 currentFeedback := Some (getIndividualFeedback m (q_trait q) (parseInt v) lang)\<rparr>))"

definition handleNext ::
  "assessment_data \<Rightarrow> Language \<Rightarrow> AssessmentState \<Rightarrow> js_error + (AssessmentState \<times> effect list)" where
  "handleNext m lang st =
     (case selectedOption st of
        None \<Rightarrow>
          Inr (st, [ShowToast \<lparr>t_title = toast_title (translations_of m lang),
                               t_description = toast_description (translations_of m lang),
                               variant = ''destructive''\<rparr>])
      | Some sel \<Rightarrow>
          (case currentQuestion m st of
             Inl e \<Rightarrow> Inl e
           | Inr q \<Rightarrow>
               (let newAnswer = \<lparr>a_id = q_id q, trait = q_trait q, score = parseInt sel,
                                 feedback = getIndividualFeedback m (q_trait q) (parseInt sel) En\<rparr>;
                    newAnswers = answers st @ [newAnswer]
                in if int (currentQuestionIndex st) < int (length (questions m)) - 1
                   then Inr (st\<lparr>answers := newAnswers,
                                  currentQuestionIndex := currentQuestionIndex st + 1,
                                  selectedOption := None,
                                  currentFeedback := None\<rparr>, [])
                   else Inr (st\<lparr>answers := newAnswers\<rparr>, [OnComplete newAnswers]))))"

section \<open>The wizard\<close>

datatype Step = StepLanguage | StepInfo | StepAssessment | StepResults

record AppState =
  step :: Step
  lang :: Language
  userData :: "UserInfo option"
  assessmentData' :: "AnswerDetail list"

definition App_init :: AppState where
  "App_init = \<lparr>step = StepLanguage, lang = En, userData = None, assessmentData' = []\<rparr>"

definition handleLanguageSelect :: "Language \<Rightarrow> AppState \<Rightarrow> AppState" where
  "handleLanguageSelect selectedLang app = app\<lparr>lang := selectedLang, step := StepInfo\<rparr>"

definition handleInfoSubmit :: "UserInfo \<Rightarrow> AppState \<Rightarrow> AppState" where
  "handleInfoSubmit data app = app\<lparr>userData := Some data, step := StepAssessment\<rparr>"

definition handleAssessmentComplete :: "AnswerDetail list \<Rightarrow> AppState \<Rightarrow> AppState" where
  "handleAssessmentComplete data app = app\<lparr>assessmentData' := data, step := StepResults\<rparr>"

text \<open>\<open>assessmentData.reduce((acc, val) => acc + val.score, 0)\<close>\<close>

definition reduce_score :: "AnswerDetail list \<Rightarrow> number" where
  "reduce_score xs = foldl (\<lambda>acc val. num_add acc (score val)) (Num 0) xs"

text \<open>What \<open>getStepComponent\<close> returns: the step component with its props, or \<open>null\<close>.\<close>

datatype View =
    LanguageSelectionStep
  | UserInfoStep_view Language
  | AssessmentStep_view Language
  | ResultsStep_view number UserInfo "AnswerDetail list" Language
  | Null_view

definition getStepComponent :: "AppState \<Rightarrow> View" where
  "getStepComponent app =
     (case step app of
        StepLanguage \<Rightarrow> LanguageSelectionStep
      | StepInfo \<Rightarrow> UserInfoStep_view (lang app)
      | StepAssessment \<Rightarrow> AssessmentStep_view (lang app)
      | StepResults \<Rightarrow>
          (case userData app of
             Some u \<Rightarrow>
               ResultsStep_view (reduce_score (assessmentData' app)) u (assessmentData' app) (lang app)
           | None \<Rightarrow> Null_view))"

text \<open>
  The callbacks the App passes down as props: an \<open>onSubmit\<close> of the personal-info step
  runs \<open>handleInfoSubmit\<close>, an \<open>onComplete\<close> of the assessment step runs
  \<open>handleAssessmentComplete\<close>.
\<close>

fun deliver :: "AppState \<Rightarrow> effect \<Rightarrow> AppState" where
  "deliver app (OnComplete d) = handleAssessmentComplete d app"
| "deliver app (OnSubmit u) = handleInfoSubmit u app"
| "deliver app _ = app"

text \<open>
  The user answers the questions in turn: for each value, the radio item with that value
  is chosen and then the next button is pressed. The assessment step is mounted only while
  the App is on its step, so later values reach no handler.
\<close>

fun answer_all ::
  "assessment_data \<Rightarrow> Language \<Rightarrow> string list \<Rightarrow> AssessmentState \<times> AppState
     \<Rightarrow> js_error + (AssessmentState \<times> AppState)" where
  "answer_all m l [] s = Inr s"
| "answer_all m l (v # vs) (st, app) =
     (if step app \<noteq> StepAssessment then Inr (st, app)
      else case handleOptionChange m l v st of
             Inl e \<Rightarrow> Inl e
           | Inr st1 \<Rightarrow>
               (case handleNext m l st1 of
                  Inl e \<Rightarrow> Inl e
                | Inr (st2, effs) \<Rightarrow> answer_all m l vs (st2, foldl deliver app effs)))"

section \<open>A catalog for concrete runs\<close>

text \<open>
  A catalog of the six traits with one option per score, used to evaluate the components
  at concrete inputs. Its texts are placeholders: the texts of the application are in the
  module that is not among the sources.
\<close>

definition sample_options :: "QOption list" where
  "sample_options =
     [\<lparr>o_text = \<lparr>en = ''a'', hi = ''ka''\<rparr>, o_score = Num 3\<rparr>,
      \<lparr>o_text = \<lparr>en = ''b'', hi = ''kha''\<rparr>, o_score = Num 2\<rparr>,
      \<lparr>o_text = \<lparr>en = ''c'', hi = ''ga''\<rparr>, o_score = Num 1\<rparr>]"

definition sample_question :: "int \<Rightarrow> string \<Rightarrow> Question" where
  "sample_question i t =
     \<lparr>q_id = i, q_trait = t, questionText = \<lparr>en = ''q'', hi = ''pra''\<rparr>, options = sample_options\<rparr>"

definition sample_translations :: "Language \<Rightarrow> Translations" where
  "sample_translations l =
     \<lparr>toast_title = (case l of En \<Rightarrow> ''No option selected'' | Hi \<Rightarrow> ''koi vikalp nahin''),
      toast_description = (case l of En \<Rightarrow> ''Please select an option'' | Hi \<Rightarrow> ''kripya chunen''),
      traits = (\<lambda>t. case l of En \<Rightarrow> t | Hi \<Rightarrow> ''hi:'' @ t),
      score_label = (case l of En \<Rightarrow> ''Score'' | Hi \<Rightarrow> ''ank''),
      finalAssessment_tr = (\<lambda>s. ''hi:'' @ s)\<rparr>"

definition sample_data :: assessment_data where
  "sample_data =
     \<lparr>questions =
        [sample_question 1 ''Gratitude'', sample_question 2 ''Resilience'',
         sample_question 3 ''Empathy'', sample_question 4 ''Sociability'',
         sample_question 5 ''Social Cognition'', sample_question 6 ''Courage''],
      getIndividualFeedback =
        (\<lambda>t s l. (case l of En \<Rightarrow> ''en:'' | Hi \<Rightarrow> ''hi:'') @ t @ '':'' @ String_number s),
      getFinalFeedback =
        (\<lambda>s l. (case l of En \<Rightarrow> ''en:total:'' | Hi \<Rightarrow> ''hi:total:'') @ String_number s),
      getFinalAssessment = (\<lambda>s l. s),
      translations_of = sample_translations\<rparr>"

definition sample_user :: UserInfo where
  "sample_user =
     \<lparr>name = ''Test User'', name_hi = ''Test User'', age = Num 30, gender = ''Male'',
      countryCode = ''+91'', mobile = ''9999999999'', email = Some [],
      state = ''Madhya Pradesh'', district = ''Bhopal''\<rparr>"

section \<open>JavaScript values read from JSON\<close>

text \<open>
  A parsed JSON body, with \<open>undefined\<close> for what a missing property reads as. An object
  is the list of its properties.
\<close>

datatype jsval =
    JUndefined
  | JNull
  | JBool bool
  | JNum number
  | JStr string
  | JArr "jsval list"
  | JObj "(string \<times> jsval) list"

fun truthy :: "jsval \<Rightarrow> bool" where
  "truthy JUndefined = False"
| "truthy JNull = False"
| "truthy (JBool b) = b"
| "truthy (JNum NaN) = False"
| "truthy (JNum (Num i)) = (i \<noteq> 0)"
| "truthy (JStr s) = (s \<noteq> [])"
| "truthy (JArr xs) = True"
| "truthy (JObj kvs) = True"

fun message :: "js_error \<Rightarrow> string" where
  "message (TypeError s) = s"
| "message (Error s) = s"

text \<open>
  \<open>v.k\<close> for a property name \<open>k\<close> that no prototype defines (the code reads \<open>error\<close>,
  \<open>details\<close>, \<open>text\<close> and \<open>transliteration\<close>): it throws on \<open>null\<close> and \<open>undefined\<close>
  and is \<open>undefined\<close> on every value without that property.
\<close>

fun get_prop :: "jsval \<Rightarrow> string \<Rightarrow> js_error + jsval" where
  "get_prop JUndefined k = Inl (TypeError ''Cannot read properties of undefined'')"
| "get_prop JNull k = Inl (TypeError ''Cannot read properties of null'')"
| "get_prop (JObj kvs) k = Inr (case map_of kvs k of Some v \<Rightarrow> v | None \<Rightarrow> JUndefined)"
| "get_prop _ k = Inr JUndefined"

text \<open>\<open>v[i]\<close> for an index \<open>i\<close>: an element, a one-character string, or \<open>undefined\<close>.\<close>

fun get_index :: "jsval \<Rightarrow> nat \<Rightarrow> js_error + jsval" where
  "get_index JUndefined i = Inl (TypeError ''Cannot read properties of undefined'')"
| "get_index JNull i = Inl (TypeError ''Cannot read properties of null'')"
| "get_index (JArr xs) i = Inr (if i < length xs then xs ! i else JUndefined)"
| "get_index (JStr s) i = Inr (if i < length s then JStr [s ! i] else JUndefined)"
| "get_index (JObj kvs) i =
     Inr (case map_of kvs (string_of_nat i) of Some v \<Rightarrow> v | None \<Rightarrow> JUndefined)"
| "get_index _ i = Inr JUndefined"

fun join_comma :: "string list \<Rightarrow> string" where
  "join_comma [] = []"
| "join_comma [x] = x"
| "join_comma (x # y # ys) = x @ '','' @ join_comma (y # ys)"

text \<open>The string a value converts to, as \<open>new Error(v)\<close> stores it in \<open>message\<close>.\<close>

fun js_ToString :: "jsval \<Rightarrow> string" where
  "js_ToString JUndefined = ''undefined''"
| "js_ToString JNull = ''null''"
| "js_ToString (JBool b) = (if b then ''true'' else ''false'')"
| "js_ToString (JNum n) = String_number n"
| "js_ToString (JStr s) = s"
| "js_ToString (JArr xs) =
     join_comma (map (\<lambda>x. if x = JUndefined \<or> x = JNull then [] else js_ToString x) xs)"
| "js_ToString (JObj kvs) = ''[object Object]''"

section \<open>ResultsStep\<close>

text \<open>
  What one run of the effect meets outside the component: the two dates it reads,
  whether \<open>localStorage.setItem\<close> succeeds, and what the request to \<open>/api/log\<close> gives.
  A request either rejects (with the message of its error) or yields a response with its
  \<open>ok\<close> flag and what \<open>response.json()\<close> gives (the message of its error, or the value).
\<close>

datatype fetch_result =
    FetchRejected string
  | Response bool "string + jsval"

record effect_env =
  date_certificate :: string
  date_submission :: string
  setItem_ok :: bool
  log_result :: fetch_result

text \<open>
  The part of \<open>logSubmission\<close> after the request is sent: \<open>None\<close> when the try block
  completes, otherwise the message of the error that its catch block receives.
\<close>

definition logSubmission_caught :: "fetch_result \<Rightarrow> string option" where
  "logSubmission_caught r =
     (case r of
        FetchRejected msg \<Rightarrow> Some msg
      | Response ok body \<Rightarrow>
          (case body of
             Inl msg \<Rightarrow> Some msg
           | Inr result \<Rightarrow>
               if \<not> ok then
                 (case get_prop result ''error'' of
                    Inl e \<Rightarrow> Some (message e)
                  | Inr er \<Rightarrow>
                      if truthy er then Some (js_ToString er)
                      else (case get_prop result ''details'' of
                              Inl e \<Rightarrow> Some (message e)
                            | Inr de \<Rightarrow>
                                if truthy de then Some (js_ToString de)
                                else Some ''Failed to log submission''))
               else None))"

definition submissionData ::
  "assessment_data \<Rightarrow> string \<Rightarrow> number \<Rightarrow> UserInfo \<Rightarrow> AnswerDetail list \<Rightarrow> SubmissionData" where
  "submissionData m today sc u ad =
     \<lparr>s_name = name u, s_name_hi = name_hi u, s_age = age u, s_gender = gender u,
      s_mobile = mobile u,
      s_email = (case email u of None \<Rightarrow> [] | Some e \<Rightarrow> e),
      s_countryCode = countryCode u, s_state = state u, s_district = district u,
      s_assessmentData = ad, totalScore = sc,
      s_finalAssessmentText = getFinalAssessment m (getFinalFeedback m sc En) En,
      s_date = today\<rparr>"

definition logSubmission ::
  "assessment_data \<Rightarrow> effect_env \<Rightarrow> number \<Rightarrow> UserInfo \<Rightarrow> AnswerDetail list \<Rightarrow> effect list" where
  "logSubmission m env sc u ad =
     FetchPost ''/api/log'' (submissionData m (date_submission env) sc u ad) #
     (case logSubmission_caught (log_result env) of
        None \<Rightarrow> []
      | Some msg \<Rightarrow>
          [ShowToast \<lparr>t_title = ''Data Submission Failed'',
                       t_description =
                         ''Your assessment results could not be saved. Reason: '' @ msg,
                       variant = ''destructive''\<rparr>])"

definition certificateData ::
  "assessment_data \<Rightarrow> string \<Rightarrow> number \<Rightarrow> UserInfo \<Rightarrow> AnswerDetail list \<Rightarrow> CertificateData" where
  "certificateData m today sc u ad =
     UserInfo.extend u
       (CertificateData.fields today ad (getFinalAssessment m (getFinalFeedback m sc En) En))"

text \<open>
  The body of the \<open>useEffect\<close> of the component, on the value of \<open>hasLoggedRef.current\<close>:
  it returns the new value of the ref and what the run did. The props are the score, the
  user data, the answers and the language.
\<close>

definition ResultsStep_effect ::
  "assessment_data \<Rightarrow> effect_env \<Rightarrow> number \<Rightarrow> UserInfo \<Rightarrow> AnswerDetail list \<Rightarrow> Language
     \<Rightarrow> bool \<Rightarrow> bool \<times> effect list" where
  "ResultsStep_effect m env sc u ad l hasLogged =
     (if hasLogged then (hasLogged, [])
      else (True,
            (if setItem_ok env
             then [LocalStorageSetItem ''anandakAssessmentCertificate''
                     (certificateData m (date_certificate env) sc u ad)]
             else [ShowToast \<lparr>t_title = ''Could not save certificate'',
                               t_description =
                                 ''There was an issue preparing your certificate data.'',
                               variant = ''destructive''\<rparr>])
            @ logSubmission m env sc u ad))"

text \<open>
  The effect runs after the first render and again whenever a dependency changed; each
  run has its own surroundings and props, and the ref lives as long as the mounted
  component.
\<close>

fun ResultsStep_effects ::
  "assessment_data \<Rightarrow> (effect_env \<times> number \<times> UserInfo \<times> AnswerDetail list \<times> Language) list
     \<Rightarrow> bool \<Rightarrow> bool \<times> effect list" where
  "ResultsStep_effects m [] hasLogged = (hasLogged, [])"
| "ResultsStep_effects m ((env, sc, u, ad, l) # runs) hasLogged =
     (let (h1, effs1) = ResultsStep_effect m env sc u ad l hasLogged;
          (h2, effs2) = ResultsStep_effects m runs h1
      in (h2, effs1 @ effs2))"

fun is_fetch :: "effect \<Rightarrow> bool" where
  "is_fetch (FetchPost url body) = True"
| "is_fetch _ = False"

fun is_setItem :: "effect \<Rightarrow> bool" where
  "is_setItem (LocalStorageSetItem k v) = True"
| "is_setItem _ = False"

section \<open>The certificate page\<close>

text \<open>
  \<open>localStorage\<close> holds the certificate data under its key; what \<open>JSON.stringify\<close> wrote is
  what \<open>JSON.parse\<close> reads back.
\<close>

fun store_effect :: "(string \<rightharpoonup> CertificateData) \<Rightarrow> effect \<Rightarrow> (string \<rightharpoonup> CertificateData)" where
  "store_effect st (LocalStorageSetItem k v) = st(k \<mapsto> v)"
| "store_effect st _ = st"

datatype CertificatePage_view = ShowCertificate CertificateData | ReplaceWithHome

definition CertificatePage :: "(string \<rightharpoonup> CertificateData) \<Rightarrow> CertificatePage_view" where
  "CertificatePage st =
     (case st ''anandakAssessmentCertificate'' of
        Some d \<Rightarrow> ShowCertificate d
      | None \<Rightarrow> ReplaceWithHome)"

section \<open>Certificate\<close>

record CertRow =
  row_trait :: string
  row_score_label :: string
  row_score :: number
  row_feedback :: string

record CertView =
  prefixedName :: string
  place_district :: jsval
  place_state :: jsval
  rows :: "CertRow list"
  summary :: string

datatype engine_call = IndividualFeedback string number Language

text \<open>
  The state of one mounted variant: the two values of \<open>useState\<close>, which start as the
  state and the district of the record.
\<close>

record CertState =
  transliteratedState :: jsval
  transliteratedDistrict :: jsval

definition CertificateContent_init :: "CertificateData \<Rightarrow> CertState" where
  "CertificateContent_init d =
     \<lparr>transliteratedState = JStr (state d), transliteratedDistrict = JStr (district d)\<rparr>"

definition getPrefixedName :: "string \<Rightarrow> string \<Rightarrow> string" where
  "getPrefixedName n g =
     (if g = ''Male'' then ''Mr. '' @ n else if g = ''Female'' then ''Ms. '' @ n else n)"

text \<open>The Hindi honorifics, in Devanagari in the source, are written in Latin letters.\<close>

definition getPrefixedNameHi :: "string \<Rightarrow> string \<Rightarrow> string" where
  "getPrefixedNameHi n g =
     (if g = ''Male'' then ''Shri '' @ n else if g = ''Female'' then ''Sushri '' @ n else n)"

definition detailedResults :: "CertificateData \<Rightarrow> AnswerDetail list" where
  "detailedResults d = filter (\<lambda>item. trait item \<noteq> ''Courage'') (assessmentData d)"

text \<open>One entry of the detailed results, with the call of the feedback function it makes.\<close>

definition detailed_row ::
  "assessment_data \<Rightarrow> Language \<Rightarrow> AnswerDetail \<Rightarrow> CertRow \<times> engine_call list" where
  "detailed_row m l item =
     (\<lparr>row_trait = (if l = Hi then traits (translations_of m Hi) (trait item)
                     else traits (translations_of m En) (trait item)),
       row_score_label = (if l = Hi then score_label (translations_of m Hi)
                          else score_label (translations_of m En)),
       row_score = score item,
       row_feedback = getIndividualFeedback m (trait item) (score item) l\<rparr>,
      [IndividualFeedback (trait item) (score item) l])"

text \<open>
  One render pass of a language variant, on the state of the component: the name line, the
  place of the main line, the detailed results and the assessment summary, together with
  the calls of feedback functions that the pass makes. The fixed labels and the date lines
  are left out.
\<close>

definition CertificateContent ::
  "assessment_data \<Rightarrow> CertificateData \<Rightarrow> Language \<Rightarrow> CertState \<Rightarrow> CertView \<times> engine_call list" where
  "CertificateContent m d l st =
     (let rs = map (detailed_row m l) (detailedResults d)
      in (\<lparr>prefixedName = (if l = Hi then getPrefixedNameHi (name_hi d) (gender d)
                            else getPrefixedName (name d) (gender d)),
            place_district = (if l = En then JStr (district d) else transliteratedDistrict st),
            place_state = (if l = En then JStr (state d) else transliteratedState st),
            rows = map fst rs,
            summary = (if l = En then finalAssessmentText d
                       else finalAssessment_tr (translations_of m Hi) (finalAssessmentText d))\<rparr>,
          concat (map snd rs)))"







section \<open>The submission sink\<close>

record DbRow =
  db_name :: string
  db_name_hi :: string
  db_age :: number
  db_gender :: string
  db_country_code :: string
  db_mobile :: string
  db_email :: "string option"
  db_state :: string
  db_district :: string
  total_score :: number
  final_assessment :: string
  gratitude_score :: number
  resilience_score :: number
  empathy_score :: number
  sociability_score :: number
  social_cognition_score :: number
  courage_score :: number
  assessment_data_col :: "AnswerDetail list"
  feedback_comments :: "(string \<times> string) list"

text \<open>\<open>data.assessmentData?.find((a) => a.trait === t)?.score ?? 0\<close>\<close>

definition trait_score :: "AnswerDetail list \<Rightarrow> string \<Rightarrow> number" where
  "trait_score ad t = (case find (\<lambda>a. trait a = t) ad of Some a \<Rightarrow> score a | None \<Rightarrow> Num 0)"

text \<open>The row that \<open>saveAssessmentToSupabase\<close> inserts for a submission.\<close>

definition saveAssessmentToSupabase_row :: "SubmissionData \<Rightarrow> DbRow" where
  "saveAssessmentToSupabase_row d =
     \<lparr>db_name = s_name d, db_name_hi = s_name_hi d, db_age = s_age d, db_gender = s_gender d,
      db_country_code = (if s_countryCode d \<noteq> [] then s_countryCode d else ''+91''),
      db_mobile = s_mobile d,
      db_email = (if s_email d \<noteq> [] then Some (s_email d) else None),
      db_state = s_state d, db_district = s_district d,
      total_score = totalScore d,
      final_assessment = s_finalAssessmentText d,
      gratitude_score = trait_score (s_assessmentData d) ''Gratitude'',
      resilience_score = trait_score (s_assessmentData d) ''Resilience'',
      empathy_score = trait_score (s_assessmentData d) ''Empathy'',
      sociability_score = trait_score (s_assessmentData d) ''Sociability'',
      social_cognition_score = trait_score (s_assessmentData d) ''Social Cognition'',
      courage_score = trait_score (s_assessmentData d) ''Courage'',
      assessment_data_col = s_assessmentData d,
      feedback_comments = map (\<lambda>a. (trait a, feedback a)) (s_assessmentData d)\<rparr>"

section \<open>A whole session\<close>

text \<open>
  A session from the language choice to the effect of the results step: the language is
  chosen, the personal information is submitted, the radio values are answered in turn,
  and the step component that \<open>getStepComponent\<close> returns is mounted; when it is the results
  step, its effect runs once. The result is what that effect does.
\<close>

definition session_effects ::
  "assessment_data \<Rightarrow> Language \<Rightarrow> UserInfo \<Rightarrow> string list \<Rightarrow> effect_env \<Rightarrow> js_error + effect list" where
  "session_effects m l u vs env =
     (case answer_all m l vs
             (beginAssessment AssessmentStep_init,
              handleInfoSubmit u (handleLanguageSelect l App_init)) of
        Inl e \<Rightarrow> Inl e
      | Inr (st, app) \<Rightarrow>
          (case getStepComponent app of
             ResultsStep_view sc u' ad l' \<Rightarrow> Inr (snd (ResultsStep_effect m env sc u' ad l' False))
           | _ \<Rightarrow> Inr []))"

definition sample_env :: "fetch_result \<Rightarrow> effect_env" where
  "sample_env r =
     \<lparr>date_certificate = ''November 3, 2026'', date_submission = ''November 3, 2026'',
      setItem_ok = True, log_result = r\<rparr>"

definition sample_answers :: "AnswerDetail list" where
  "sample_answers =
     [\<lparr>a_id = 1, trait = ''Gratitude'', score = Num 3, feedback = ''en:Gratitude:3''\<rparr>,
      \<lparr>a_id = 6, trait = ''Courage'', score = Num 2, feedback = ''en:Courage:2''\<rparr>,
      \<lparr>a_id = 3, trait = ''Empathy'', score = Num 1, feedback = ''en:Empathy:1''\<rparr>]"

definition sample_certificate :: CertificateData where
  "sample_certificate =
     certificateData sample_data ''November 3, 2026'' (Num 6) sample_user sample_answers"

section \<open>The transliteration route\<close>

text \<open>
  A request as the route handler reads it: what its body parses to (\<open>None\<close> when the body
  is not JSON) and whether the body has been read. A body can be read once: \<open>req.json()\<close>
  on a body already read rejects with a \<open>TypeError\<close>.
\<close>

record Request =
  body_json :: "jsval option"
  bodyUsed :: bool

definition req_json :: "Request \<Rightarrow> (js_error + jsval) \<times> Request" where
  "req_json req =
     (if bodyUsed req then (Inl (TypeError ''Body is unusable''), req)
      else (case body_json req of
              None \<Rightarrow> Inl (Error ''Unexpected token in JSON'')
            | Some v \<Rightarrow> Inr v,
            req\<lparr>bodyUsed := True\<rparr>))"

datatype NextResponse = JsonResponse jsval nat

text \<open>
  The test of the upstream body for a candidate:
  \<open>data && data[0] === 'SUCCESS' && data[1] && data[1][0] && data[1][0][1] && data[1][0][1][0]\<close>,
  with the candidate \<open>data[1][0][1][0]\<close> when it holds.
\<close>

definition transliteratedText :: "jsval \<Rightarrow> js_error + jsval option" where
  "transliteratedText data =
     (if \<not> truthy data then Inr None
      else case get_index data 0 of Inl e \<Rightarrow> Inl e | Inr d0 \<Rightarrow>
      if d0 \<noteq> JStr ''SUCCESS'' then Inr None
      else case get_index data 1 of Inl e \<Rightarrow> Inl e | Inr d1 \<Rightarrow>
      if \<not> truthy d1 then Inr None
      else case get_index d1 0 of Inl e \<Rightarrow> Inl e | Inr d10 \<Rightarrow>
      if \<not> truthy d10 then Inr None
      else case get_index d10 1 of Inl e \<Rightarrow> Inl e | Inr d101 \<Rightarrow>
      if \<not> truthy d101 then Inr None
      else case get_index d101 0 of Inl e \<Rightarrow> Inl e | Inr d1010 \<Rightarrow>
      if \<not> truthy d1010 then Inr None
      else Inr (Some d1010))"

text \<open>
  The catch block of the handler: it reads the request body again for the text to echo,
  with \<open>{ text: '' }\<close> when that read rejects.
\<close>

definition transliterate_catch :: "Request \<Rightarrow> js_error + NextResponse" where
  "transliterate_catch req =
     (case fst (req_json req) of
        Inl e \<Rightarrow> Inr (JsonResponse (JObj [(''transliteration'', JStr [])]) 200)
      | Inr v \<Rightarrow>
          (case get_prop v ''text'' of
             Inl e \<Rightarrow> Inl e
           | Inr t \<Rightarrow> Inr (JsonResponse (JObj [(''transliteration'', t)]) 200)))"

text \<open>
  The handler, on the request and on what the request to the upstream service gives. An
  error thrown in the try block goes to the catch block; an error thrown there leaves the
  handler.
\<close>

definition transliterate_POST :: "Request \<Rightarrow> fetch_result \<Rightarrow> js_error + NextResponse" where
  "transliterate_POST req upstream =
     (case req_json req of
        (Inl e, req1) \<Rightarrow> transliterate_catch req1
      | (Inr v, req1) \<Rightarrow>
          (case get_prop v ''text'' of
             Inl e \<Rightarrow> transliterate_catch req1
           | Inr text \<Rightarrow>
               if \<not> truthy text
               then Inr (JsonResponse (JObj [(''error'', JStr ''Text is required'')]) 400)
               else (case upstream of
                       FetchRejected msg \<Rightarrow> transliterate_catch req1
                     | Response ok body \<Rightarrow>
                         if \<not> ok then transliterate_catch req1
                         else (case body of
                                 Inl msg \<Rightarrow> transliterate_catch req1
                               | Inr data \<Rightarrow>
                                   (case transliteratedText data of
                                      Inl e \<Rightarrow> transliterate_catch req1
                                    | Inr (Some c) \<Rightarrow>
                                        Inr (JsonResponse (JObj [(''transliteration'', c)]) 200)
                                    | Inr None \<Rightarrow>
                                        Inr (JsonResponse (JObj [(''transliteration'', text)]) 200))))))"

definition text_request :: "string \<Rightarrow> Request" where
  "text_request s = \<lparr>body_json = Some (JObj [(''text'', JStr s)]), bodyUsed = False\<rparr>"

section \<open>UserInfoStep\<close>

text \<open>
  The values the form holds before validation. Age, gender and district start as
  \<open>undefined\<close>; the other fields are strings.
\<close>

record FormValues =
  f_name :: string
  f_name_hi :: string
  f_age :: "number option"
  f_gender :: "string option"
  f_countryCode :: string
  f_mobile :: string
  f_email :: string
  f_state :: string
  f_district :: "string option"

definition defaultValues :: FormValues where
  "defaultValues =
     \<lparr>f_name = [], f_name_hi = [], f_age = None, f_gender = None, f_countryCode = ''+91'',
      f_mobile = [], f_email = [], f_state = ''Madhya Pradesh'', f_district = None\<rparr>"

text \<open>
  \<open>formSchema\<close>: the issues of a value, field by field in the order of the schema, or the
  parsed user information when there is none. The test of the library for an e-mail
  address is a parameter. Messages that the schema does not give are the defaults of the
  library; the message of \<open>name_hi\<close>, in Devanagari in the source, is written in Latin
  letters.
\<close>

definition formSchema :: "(string \<Rightarrow> bool) \<Rightarrow> FormValues \<Rightarrow> (string \<times> string) list + UserInfo" where
  "formSchema is_email v =
     (let issues =
        (if length (f_name v) < 2 then [(''name'', ''Name must be at least 2 characters.'')] else [])
        @ (if length (f_name_hi v) < 1 then [(''name_hi'', ''Kripya Hindi mein naam darj karen.'')] else [])
        @ (case f_age v of
             None \<Rightarrow> [(''age'', ''Expected number, received nan'')]
           | Some NaN \<Rightarrow> [(''age'', ''Expected number, received nan'')]
           | Some (Num n) \<Rightarrow>
               (if n < 1 then [(''age'', ''Please enter your age.'')] else [])
               @ (if n > 120 then [(''age'', ''Please enter a valid age.'')] else []))
        @ (case f_gender v of
             None \<Rightarrow> [(''gender'', ''Please select your gender.'')]
           | Some g \<Rightarrow>
               if g \<in> set [''Male'', ''Female'', ''Other'', ''Prefer not to say''] then []
               else [(''gender'', ''Invalid enum value'')])
        @ (if length (f_countryCode v) < 1 then [(''countryCode'', ''Please select country code.'')] else [])
        @ (if length (f_mobile v) < 1 then [(''mobile'', ''Please enter your mobile number.'')] else [])
        @ (if is_email (f_email v) \<or> f_email v = [] then []
           else [(''email'', ''Please enter a valid email.'')])
        @ (if length (f_state v) < 1 then [(''state'', ''Please select your state/UT.'')] else [])
        @ (case f_district v of
             None \<Rightarrow> [(''district'', ''Please select your district.'')]
           | Some d \<Rightarrow>
               if length d < 1 then [(''district'', ''Please select your district.'')] else [])
      in if issues \<noteq> [] then Inl issues
         else Inr \<lparr>name = f_name v, name_hi = f_name_hi v,
                   age = (case f_age v of Some a \<Rightarrow> a | None \<Rightarrow> NaN),
                   gender = (case f_gender v of Some g \<Rightarrow> g | None \<Rightarrow> []),
                   countryCode = f_countryCode v, mobile = f_mobile v,
                   email = Some (f_email v), state = f_state v,
                   district = (case f_district v of Some d \<Rightarrow> d | None \<Rightarrow> [])\<rparr>)"

text \<open>
  The table \<open>statesWithDistricts\<close> of \<open>lib/indian-states-districts\<close> is not among the
  sources; the component takes it as a parameter, a list of states with their districts.
\<close>

record StateData =
  sd_state :: string
  sd_districts :: "string list"

text \<open>The state effect: the districts of the selected state, none when it is not found.\<close>

definition districts_for :: "StateData list \<Rightarrow> string \<Rightarrow> string list" where
  "districts_for table selectedState =
     (if selectedState \<noteq> []
      then (case find (\<lambda>s. sd_state s = selectedState) table of
              Some stateData \<Rightarrow> sd_districts stateData
            | None \<Rightarrow> [])
      else [])"

record FormState =
  form_values :: FormValues
  districts :: "string list"
  form_errors :: "(string \<times> string) list"

text \<open>The component after its first render and the effects of mounting.\<close>

definition UserInfoStep_init :: "StateData list \<Rightarrow> FormState" where
  "UserInfoStep_init table =
     \<lparr>form_values = defaultValues,
      districts = districts_for table (f_state defaultValues),
      form_errors = []\<rparr>"

text \<open>
  What the user (or the answer of the transliteration service) can do to the form: type
  into a text field, set the age, pick a gender or a country code, pick the state at a
  position of the state list, pick the district at a position of the district list that
  the component currently offers, or submit.
\<close>

datatype FormEvent =
    TypeName string
  | SetNameHi string
  | SetAge "number option"
  | SelectGender string
  | SelectCountryCode string
  | TypeMobile string
  | TypeEmail string
  | SelectState nat
  | SelectDistrict nat
  | Submit

text \<open>
  The state effect runs when the watched state value changed: it replaces the offered
  districts and, for a non-empty state, resets the district field to its default.
\<close>

definition state_effect :: "StateData list \<Rightarrow> FormState \<Rightarrow> FormState" where
  "state_effect table fs =
     (let selectedState = f_state (form_values fs)
      in if selectedState \<noteq> []
         then fs\<lparr>districts := districts_for table selectedState,
                 form_values := (form_values fs)\<lparr>f_district := None\<rparr>\<rparr>
         else fs\<lparr>districts := []\<rparr>)"

definition handleFormSubmit :: "UserInfo \<Rightarrow> effect list" where
  "handleFormSubmit vals = [OnSubmit vals]"

fun form_event ::
  "(string \<Rightarrow> bool) \<Rightarrow> StateData list \<Rightarrow> FormState \<Rightarrow> FormEvent \<Rightarrow> FormState \<times> effect list" where
  "form_event is_email table fs (TypeName s) =
     (fs\<lparr>form_values := (form_values fs)
           \<lparr>f_name := s,
            f_name_hi := (if list_all is_white_space s then [] else f_name_hi (form_values fs))\<rparr>\<rparr>, [])"
| "form_event is_email table fs (SetNameHi s) =
     (fs\<lparr>form_values := (form_values fs)\<lparr>f_name_hi := s\<rparr>\<rparr>, [])"
| "form_event is_email table fs (SetAge a) =
     (fs\<lparr>form_values := (form_values fs)\<lparr>f_age := a\<rparr>\<rparr>, [])"
| "form_event is_email table fs (SelectGender g) =
     (fs\<lparr>form_values := (form_values fs)\<lparr>f_gender := Some g\<rparr>\<rparr>, [])"
| "form_event is_email table fs (SelectCountryCode c) =
     (fs\<lparr>form_values := (form_values fs)\<lparr>f_countryCode := c\<rparr>\<rparr>, [])"
| "form_event is_email table fs (TypeMobile s) =
     (fs\<lparr>form_values := (form_values fs)\<lparr>f_mobile := s\<rparr>\<rparr>, [])"
| "form_event is_email table fs (TypeEmail s) =
     (fs\<lparr>form_values := (form_values fs)\<lparr>f_email := s\<rparr>\<rparr>, [])"
| "form_event is_email table fs (SelectState i) =
     (if i < length table
      then (if sd_state (table ! i) = f_state (form_values fs) then (fs, [])
            else (state_effect table
                    (fs\<lparr>form_values := (form_values fs)\<lparr>f_state := sd_state (table ! i)\<rparr>\<rparr>), []))
      else (fs, []))"
| "form_event is_email table fs (SelectDistrict i) =
     (if i < length (districts fs)
      then (fs\<lparr>form_values := (form_values fs)\<lparr>f_district := Some (districts fs ! i)\<rparr>\<rparr>, [])
      else (fs, []))"
| "form_event is_email table fs Submit =
     (case formSchema is_email (form_values fs) of
        Inl issues \<Rightarrow> (fs\<lparr>form_errors := issues\<rparr>, [])
      | Inr vals \<Rightarrow> (fs\<lparr>form_errors := []\<rparr>, handleFormSubmit vals))"

fun form_events ::
  "(string \<Rightarrow> bool) \<Rightarrow> StateData list \<Rightarrow> FormState \<Rightarrow> FormEvent list \<Rightarrow> FormState \<times> effect list" where
  "form_events is_email table fs [] = (fs, [])"
| "form_events is_email table fs (ev # evs) =
     (let (fs1, effs1) = form_event is_email table fs ev;
          (fs2, effs2) = form_events is_email table fs1 evs
      in (fs2, effs1 @ effs2))"

text \<open>
  A fragment of a state table for concrete runs (the table of the application is not
  among the sources), and form values that pair a state with a district of another state.
\<close>

definition sample_table :: "StateData list" where
  "sample_table =
     [\<lparr>sd_state = ''Madhya Pradesh'', sd_districts = [''Bhopal'', ''Indore'']\<rparr>,
      \<lparr>sd_state = ''Maharashtra'', sd_districts = [''Mumbai'', ''Pune'']\<rparr>]"

definition mismatched_values :: FormValues where
  "mismatched_values =
     \<lparr>f_name = ''Test User'', f_name_hi = ''Test User'', f_age = Some (Num 30),
      f_gender = Some ''Male'', f_countryCode = ''+91'', f_mobile = ''9999999999'',
      f_email = [], f_state = ''Madhya Pradesh'', f_district = Some ''Mumbai''\<rparr>"

section \<open>Verified properties\<close>

subsection \<open>The guard of handleNext\<close>

text \<open>
  C3. On any question index, the advance action with no option selected leaves the
  component state as it was (same question index, same answer sequence), calls
  \<open>onComplete\<close> not at all, and returns normally with exactly one toast, the
  selection-required notice of the active language.
\<close>

theorem handleNext_without_selection:
  "selectedOption st = None \<Longrightarrow>
     (\<exists>st' effs. handleNext m l st = Inr (st', effs)
        \<and> st' = st
        \<and> currentQuestionIndex st' = currentQuestionIndex st
        \<and> answers st' = answers st
        \<and> effs = [ShowToast \<lparr>t_title = toast_title (translations_of m l),
                              t_description = toast_description (translations_of m l),
                              variant = ''destructive''\<rparr>])"
  by (simp add: handleNext_def)

theorem handleNext_without_selection_witness:
  "selectedOption (beginAssessment AssessmentStep_init) = None
   \<and> handleNext sample_data Hi (beginAssessment AssessmentStep_init) =
       Inr (beginAssessment AssessmentStep_init,
            [ShowToast \<lparr>t_title = ''koi vikalp nahin'', t_description = ''kripya chunen'',
                         variant = ''destructive''\<rparr>])"
  using handleNext_without_selection [of "beginAssessment AssessmentStep_init" sample_data Hi]
  by (simp add: beginAssessment_def AssessmentStep_init_def sample_data_def
      sample_translations_def)

subsection \<open>The total score of a completed session\<close>

lemma parseInt_String_score:
  "s \<in> {1, 2, 3} \<Longrightarrow> parseInt (String_number (Num s)) = Num s"
proof -
  assume "s \<in> {1, 2, 3}"
  then consider "s = 1" | "s = 2" | "s = 3" by auto
  then show ?thesis
    by cases (simp_all add: parseInt_def string_of_nat.simps digit_of_def is_white_space_def
        is_digit_def digit_val_def digits_value_def)
qed

lemma foldl_num_add_scores:
  "map score xs = map Num ss \<Longrightarrow>
     foldl (\<lambda>acc val. num_add acc (score val)) (Num a) xs = Num (a + sum_list ss)"
  by (induction xs arbitrary: a ss) auto

lemma sum_list_score_bounds:
  "\<forall>s\<in>set ss. s \<in> {1, 2, 3 :: int} \<Longrightarrow>
     int (length ss) \<le> sum_list ss \<and> sum_list ss \<le> 3 * int (length ss)"
  by (induction ss) auto

text \<open>
  Answering the remaining questions, each with a score in \<open>{1, 2, 3}\<close>, ends in
  \<open>handleAssessmentComplete\<close> on the answers collected so far followed by one answer per
  remaining question.
\<close>

lemma answer_all_run:
  assumes "currentQuestionIndex st + length ss = length (questions m)"
    and "ss \<noteq> []"
    and "step app = StepAssessment"
    and "\<forall>s\<in>set ss. s \<in> {1, 2, 3}"
  shows "\<exists>st'. answer_all m l (map (\<lambda>s. String_number (Num s)) ss) (st, app) =
           Inr (st', handleAssessmentComplete
                  (answers st @
                   map2 (\<lambda>q s. \<lparr>a_id = q_id q, trait = q_trait q, score = Num s,
                                 feedback = getIndividualFeedback m (q_trait q) (Num s) En\<rparr>)
                     (drop (currentQuestionIndex st) (questions m)) ss) app)"
  using assms
proof (induction ss arbitrary: st)
  case Nil
  then show ?case by simp
next
  case (Cons s rest)
  let ?k = "currentQuestionIndex st"
  have k: "?k < length (questions m)" using Cons.prems(1) by simp
  have s: "parseInt (String_number (Num s)) = Num s"
    using Cons.prems(4) by (intro parseInt_String_score) simp
  have dr: "drop ?k (questions m) = questions m ! ?k # drop (Suc ?k) (questions m)"
    using k by (simp add: Cons_nth_drop_Suc)
  show ?case
  proof (cases "rest = []")
    case True
    then have last: "\<not> int ?k < int (length (questions m)) - 1"
      using Cons.prems(1) by simp
    show ?thesis
      using True k last s Cons.prems(3) dr
      by (simp add: handleOptionChange_def handleNext_def currentQuestion_def Let_def
          del: String_number.simps)
  next
    case False
    then have more: "int ?k < int (length (questions m)) - 1"
      using Cons.prems(1) by (cases rest) auto
    define st2 where "st2 = st\<lparr>
        answers := answers st @ [\<lparr>a_id = q_id (questions m ! ?k), trait = q_trait (questions m ! ?k),
           score = Num s, feedback = getIndividualFeedback m (q_trait (questions m ! ?k)) (Num s) En\<rparr>],
        currentQuestionIndex := ?k + 1, selectedOption := None, currentFeedback := None\<rparr>"
    have step1: "answer_all m l (map (\<lambda>s. String_number (Num s)) (s # rest)) (st, app) =
                 answer_all m l (map (\<lambda>s. String_number (Num s)) rest) (st2, app)"
      using k more s Cons.prems(3)
      by (simp add: handleOptionChange_def handleNext_def currentQuestion_def Let_def st2_def
          del: String_number.simps)
    have "\<exists>st'. answer_all m l (map (\<lambda>s. String_number (Num s)) rest) (st2, app) =
           Inr (st', handleAssessmentComplete
                  (answers st2 @
                   map2 (\<lambda>q s. \<lparr>a_id = q_id q, trait = q_trait q, score = Num s,
                                 feedback = getIndividualFeedback m (q_trait q) (Num s) En\<rparr>)
                     (drop (currentQuestionIndex st2) (questions m)) rest) app)"
      using Cons.prems False by (intro Cons.IH) (simp_all add: st2_def)
    then show ?thesis
      using step1 dr by (simp add: st2_def del: String_number.simps)
  qed
qed

text \<open>
  C2. A session in which the user answers every catalog question with a score in
  \<open>{1, 2, 3}\<close> ends on the results step; the stored answers carry exactly those scores,
  one per question in catalog order; the \<open>score\<close> prop that \<open>getStepComponent\<close> passes to the
  results step is the sum of the scores, and it lies between N and 3N for the N questions
  of the catalog.
\<close>

theorem wizard_totalScore_is_sum:
  assumes "length ss = length (questions m)"
    and "questions m \<noteq> []"
    and "\<forall>s\<in>set ss. s \<in> {1, 2, 3}"
  shows "\<exists>st' app'.
           answer_all m (lang app) (map (\<lambda>s. String_number (Num s)) ss)
             (beginAssessment AssessmentStep_init, handleInfoSubmit u app) = Inr (st', app')
           \<and> map score (assessmentData' app') = map Num ss
           \<and> map a_id (assessmentData' app') = map q_id (questions m)
           \<and> getStepComponent app' =
               ResultsStep_view (Num (sum_list ss)) u (assessmentData' app') (lang app)
           \<and> int (length (questions m)) \<le> sum_list ss
           \<and> sum_list ss \<le> 3 * int (length (questions m))"
proof -
  let ?st = "beginAssessment AssessmentStep_init"
  let ?app = "handleInfoSubmit u app"
  let ?as = "map2 (\<lambda>q s. \<lparr>a_id = q_id q, trait = q_trait q, score = Num s,
                 feedback = getIndividualFeedback m (q_trait q) (Num s) En\<rparr>) (questions m) ss"
  have "currentQuestionIndex ?st + length ss = length (questions m)"
    using assms(1) by (simp add: beginAssessment_def AssessmentStep_init_def)
  moreover have "ss \<noteq> []" using assms(1,2) by auto
  moreover have "step ?app = StepAssessment" by (simp add: handleInfoSubmit_def)
  ultimately obtain st' where run:
    "answer_all m (lang app) (map (\<lambda>s. String_number (Num s)) ss) (?st, ?app) =
       Inr (st', handleAssessmentComplete ?as ?app)"
    using answer_all_run [of ?st ss m ?app "lang app"] assms(3)
    by (auto simp add: beginAssessment_def AssessmentStep_init_def)
  let ?app' = "handleAssessmentComplete ?as ?app"
  have data: "assessmentData' ?app' = ?as" by (simp add: handleAssessmentComplete_def)
  have sc: "map score ?as = map Num ss"
    using assms(1) by (intro nth_equalityI) simp_all
  have ids: "map a_id ?as = map q_id (questions m)"
    using assms(1) by (intro nth_equalityI) simp_all
  have total: "reduce_score ?as = Num (sum_list ss)"
    using foldl_num_add_scores [OF sc, of 0] by (simp add: reduce_score_def)
  have view: "getStepComponent ?app' = ResultsStep_view (Num (sum_list ss)) u ?as (lang app)"
    using total
    by (simp add: getStepComponent_def handleAssessmentComplete_def handleInfoSubmit_def)
  have bounds: "int (length (questions m)) \<le> sum_list ss \<and> sum_list ss \<le> 3 * int (length (questions m))"
    using sum_list_score_bounds [OF assms(3)] assms(1) by simp
  show ?thesis
    using run data sc ids view bounds by (intro exI [of _ st'] exI [of _ ?app']) simp
qed

theorem wizard_totalScore_is_sum_witness:
  "length [3, 2, 1, 3, 3, 1 :: int] = length (questions sample_data)
   \<and> questions sample_data \<noteq> []
   \<and> set [3, 2, 1, 3, 3, 1 :: int] \<subseteq> {1, 2, 3}
   \<and> (\<exists>st' app'.
         answer_all sample_data (lang (handleLanguageSelect Hi App_init))
           (map (\<lambda>s. String_number (Num s)) [3, 2, 1, 3, 3, 1])
           (beginAssessment AssessmentStep_init,
            handleInfoSubmit sample_user (handleLanguageSelect Hi App_init)) = Inr (st', app')
         \<and> map score (assessmentData' app') = map Num [3, 2, 1, 3, 3, 1]
         \<and> getStepComponent app' =
             ResultsStep_view (Num 13) sample_user (assessmentData' app') Hi
         \<and> (6 :: int) \<le> 13 \<and> (13 :: int) \<le> 18)"
  using wizard_totalScore_is_sum [of "[3, 2, 1, 3, 3, 1]" sample_data
      "handleLanguageSelect Hi App_init" sample_user]
  by (auto simp add: sample_data_def handleLanguageSelect_def App_init_def)

subsection \<open>The one-shot guard of the results step\<close>

lemma ResultsStep_effects_logged: "ResultsStep_effects m runs True = (True, [])"
  by (induction runs) (auto simp add: ResultsStep_effect_def)

lemma fetch_count_effect:
  "length (filter is_fetch (snd (ResultsStep_effect m env sc u ad l False))) = 1"
  by (simp add: ResultsStep_effect_def logSubmission_def split: option.splits)

lemma deliver_results_effects:
  "foldl deliver app (snd (ResultsStep_effect m env sc u ad l h)) = app"
  by (simp add: ResultsStep_effect_def logSubmission_def split: option.splits)

lemma deliver_results_effects_all:
  "foldl deliver app (snd (ResultsStep_effects m runs h)) = app"
proof (induction runs arbitrary: h)
  case Nil
  then show ?case by simp
next
  case (Cons r runs)
  obtain env sc u ad l where r: "r = (env, sc, u, ad, l)" by (cases r) auto
  obtain h1 effs1 where e1: "ResultsStep_effect m env sc u ad l h = (h1, effs1)"
    by (cases "ResultsStep_effect m env sc u ad l h")
  obtain h2 effs2 where e2: "ResultsStep_effects m runs h1 = (h2, effs2)"
    by (cases "ResultsStep_effects m runs h1")
  have "foldl deliver app effs1 = app"
    using deliver_results_effects [of app m env sc u ad l h] e1 by simp
  moreover have "foldl deliver app effs2 = app"
    using Cons.IH [of h1] e2 by simp
  ultimately show ?case by (simp add: r e1 e2)
qed

lemma setItem_count_effect:
  "length (filter is_setItem (snd (ResultsStep_effect m env sc u ad l False))) =
     (if setItem_ok env then 1 else 0)"
  by (simp add: ResultsStep_effect_def logSubmission_def split: option.splits)

text \<open>
  C4. Over any number of runs of the effect on one mounted results step, whatever the
  props and the surroundings of each run, the request to \<open>/api/log\<close> is sent exactly once
  when the effect runs at all, the certificate data is written at most once, and once the
  ref is set every further run does nothing. None of these runs calls a callback of the
  App, which therefore stays on the results step with the same component mounted.
\<close>

theorem submission_at_most_once:
  "length (filter is_fetch (snd (ResultsStep_effects m runs False))) = (if runs = [] then 0 else 1)
   \<and> length (filter is_setItem (snd (ResultsStep_effects m runs False))) \<le> 1
   \<and> ResultsStep_effects m runs True = (True, [])
   \<and> foldl deliver app (snd (ResultsStep_effects m runs False)) = app"
proof (cases runs)
  case Nil
  then show ?thesis by simp
next
  case (Cons r rest)
  obtain env sc u ad l where r: "r = (env, sc, u, ad, l)" by (cases r) auto
  obtain effs1 where h: "ResultsStep_effect m env sc u ad l False = (True, effs1)"
    by (simp add: ResultsStep_effect_def)
  have e: "snd (ResultsStep_effects m runs False) = snd (ResultsStep_effect m env sc u ad l False)"
    by (simp add: Cons r h ResultsStep_effects_logged)
  show ?thesis
    unfolding e using Cons
    by (simp add: fetch_count_effect setItem_count_effect ResultsStep_effects_logged
        deliver_results_effects)
qed

subsection \<open>The language does not reach the persisted record\<close>

lemma answer_all_language:
  assumes "showInstructions st = showInstructions st'"
    and "currentQuestionIndex st = currentQuestionIndex st'"
    and "answers st = answers st'"
    and "selectedOption st = selectedOption st'"
    and "step app = step app'"
    and "userData app = userData app'"
    and "assessmentData' app = assessmentData' app'"
  shows "case (answer_all m l vs (st, app), answer_all m l' vs (st', app')) of
           (Inl e, Inl e') \<Rightarrow> e = e'
         | (Inr (s1, a1), Inr (s2, a2)) \<Rightarrow>
             step a1 = step a2 \<and> userData a1 = userData a2
             \<and> assessmentData' a1 = assessmentData' a2
         | _ \<Rightarrow> False"
  using assms
proof (induction vs arbitrary: st st' app app')
  case Nil
  then show ?case by simp
next
  case (Cons v vs)
  show ?case
  proof (cases "step app' = StepAssessment")
    case False
    then show ?thesis using Cons.prems by simp
  next
    case True
    show ?thesis
    proof (cases "currentQuestionIndex st' < length (questions m)")
      case False
      then show ?thesis
        using Cons.prems True
        by (simp add: handleOptionChange_def currentQuestion_def)
    next
      case inrange: True
      let ?q = "questions m ! currentQuestionIndex st'"
      let ?a = "\<lparr>a_id = q_id ?q, trait = q_trait ?q, score = parseInt v,
                 feedback = getIndividualFeedback m (q_trait ?q) (parseInt v) En\<rparr>"
      show ?thesis
      proof (cases "int (currentQuestionIndex st') < int (length (questions m)) - 1")
        case more: True
        let ?n = "\<lambda>s::AssessmentState. s\<lparr>answers := answers st' @ [?a],
                     currentQuestionIndex := currentQuestionIndex st' + 1,
                     selectedOption := None, currentFeedback := None\<rparr>"
        have a: "answer_all m l (v # vs) (st, app) = answer_all m l vs (?n st, app)"
          using Cons.prems True inrange more
          by (simp add: handleOptionChange_def handleNext_def currentQuestion_def Let_def)
        have b: "answer_all m l' (v # vs) (st', app') = answer_all m l' vs (?n st', app')"
          using Cons.prems True inrange more
          by (simp add: handleOptionChange_def handleNext_def currentQuestion_def Let_def)
        show ?thesis
          unfolding a b using Cons.prems by (intro Cons.IH) simp_all
      next
        case last: False
        let ?n = "\<lambda>s::AssessmentState. s\<lparr>selectedOption := Some v,
                     currentFeedback := Some (getIndividualFeedback m (q_trait ?q) (parseInt v) l),
                     answers := answers st' @ [?a]\<rparr>"
        let ?n' = "\<lambda>s::AssessmentState. s\<lparr>selectedOption := Some v,
                     currentFeedback := Some (getIndividualFeedback m (q_trait ?q) (parseInt v) l'),
                     answers := answers st' @ [?a]\<rparr>"
        have a: "answer_all m l (v # vs) (st, app) =
                   answer_all m l vs (?n st, handleAssessmentComplete (answers st' @ [?a]) app)"
          using Cons.prems True inrange last
          by (simp add: handleOptionChange_def handleNext_def currentQuestion_def Let_def)
        have b: "answer_all m l' (v # vs) (st', app') =
                   answer_all m l' vs (?n' st', handleAssessmentComplete (answers st' @ [?a]) app')"
          using Cons.prems True inrange last
          by (simp add: handleOptionChange_def handleNext_def currentQuestion_def Let_def)
        show ?thesis
          unfolding a b using Cons.prems
          by (intro Cons.IH) (simp_all add: handleAssessmentComplete_def)
      qed
    qed
  qed
qed

lemma ResultsStep_effect_language:
  "ResultsStep_effect m env sc u ad l h = ResultsStep_effect m env sc u ad l' h"
  by (simp add: ResultsStep_effect_def)

lemma session_effects_language:
  "session_effects m En u vs env = session_effects m Hi u vs env"
proof -
  let ?st = "beginAssessment AssessmentStep_init"
  let ?r1 = "answer_all m En vs (?st, handleInfoSubmit u (handleLanguageSelect En App_init))"
  let ?r2 = "answer_all m Hi vs (?st, handleInfoSubmit u (handleLanguageSelect Hi App_init))"
  have rel: "case (?r1, ?r2) of
           (Inl e, Inl e') \<Rightarrow> e = e'
         | (Inr (s1, a1), Inr (s2, a2)) \<Rightarrow>
             step a1 = step a2 \<and> userData a1 = userData a2
             \<and> assessmentData' a1 = assessmentData' a2
         | _ \<Rightarrow> False"
    by (intro answer_all_language) (simp_all add: handleInfoSubmit_def handleLanguageSelect_def)
  show ?thesis
  proof (cases ?r1)
    case (Inl e)
    then show ?thesis using rel by (cases ?r2) (simp_all add: session_effects_def)
  next
    case (Inr p)
    obtain s1 a1 where p: "p = (s1, a1)" by (cases p)
    show ?thesis
    proof (cases ?r2)
      case (Inl e)
      then show ?thesis using rel Inr by simp
    next
      case r2: (Inr p')
      obtain s2 a2 where p': "p' = (s2, a2)" by (cases p')
      have eq: "step a1 = step a2" "userData a1 = userData a2" "assessmentData' a1 = assessmentData' a2"
        using rel Inr r2 p p' by simp_all
      show ?thesis
        using eq ResultsStep_effect_language [of m env _ _ _ "lang a1" False "lang a2"]
        by (simp add: session_effects_def Inr r2 p p' getStepComponent_def
            split: Step.splits option.splits)
    qed
  qed
qed

lemma complete_session:
  assumes "length ss = length (questions m)"
    and "questions m \<noteq> []"
    and "\<forall>s\<in>set ss. s \<in> {1, 2, 3}"
  shows "\<exists>st'.
           answer_all m l (map (\<lambda>s. String_number (Num s)) ss)
             (beginAssessment AssessmentStep_init, handleInfoSubmit u app) =
           Inr (st', handleAssessmentComplete
                  (map2 (\<lambda>q s. \<lparr>a_id = q_id q, trait = q_trait q, score = Num s,
                                 feedback = getIndividualFeedback m (q_trait q) (Num s) En\<rparr>)
                     (questions m) ss) (handleInfoSubmit u app))
           \<and> getStepComponent
               (handleAssessmentComplete
                  (map2 (\<lambda>q s. \<lparr>a_id = q_id q, trait = q_trait q, score = Num s,
                                 feedback = getIndividualFeedback m (q_trait q) (Num s) En\<rparr>)
                     (questions m) ss) (handleInfoSubmit u app)) =
             ResultsStep_view (Num (sum_list ss)) u
               (map2 (\<lambda>q s. \<lparr>a_id = q_id q, trait = q_trait q, score = Num s,
                              feedback = getIndividualFeedback m (q_trait q) (Num s) En\<rparr>)
                  (questions m) ss) (lang app)"
proof -
  let ?st = "beginAssessment AssessmentStep_init"
  let ?app = "handleInfoSubmit u app"
  let ?as = "map2 (\<lambda>q s. \<lparr>a_id = q_id q, trait = q_trait q, score = Num s,
                 feedback = getIndividualFeedback m (q_trait q) (Num s) En\<rparr>) (questions m) ss"
  have "currentQuestionIndex ?st + length ss = length (questions m)"
    using assms(1) by (simp add: beginAssessment_def AssessmentStep_init_def)
  moreover have "ss \<noteq> []" using assms(1,2) by auto
  moreover have "step ?app = StepAssessment" by (simp add: handleInfoSubmit_def)
  ultimately obtain st' where run:
    "answer_all m l (map (\<lambda>s. String_number (Num s)) ss) (?st, ?app) =
       Inr (st', handleAssessmentComplete ?as ?app)"
    using answer_all_run [of ?st ss m ?app l] assms(3)
    by (auto simp add: beginAssessment_def AssessmentStep_init_def)
  have sc: "map score ?as = map Num ss"
    using assms(1) by (intro nth_equalityI) simp_all
  have total: "reduce_score ?as = Num (sum_list ss)"
    using foldl_num_add_scores [OF sc, of 0] by (simp add: reduce_score_def)
  have view: "getStepComponent (handleAssessmentComplete ?as ?app) =
                ResultsStep_view (Num (sum_list ss)) u ?as (lang app)"
    using total
    by (simp add: getStepComponent_def handleAssessmentComplete_def handleInfoSubmit_def)
  show ?thesis using run view by blast
qed

lemma session_effects_complete:
  assumes "length ss = length (questions m)"
    and "questions m \<noteq> []"
    and "\<forall>s\<in>set ss. s \<in> {1, 2, 3}"
  shows "session_effects m l u (map (\<lambda>s. String_number (Num s)) ss) env =
           Inr (snd (ResultsStep_effect m env (Num (sum_list ss)) u
                  (map2 (\<lambda>q s. \<lparr>a_id = q_id q, trait = q_trait q, score = Num s,
                                 feedback = getIndividualFeedback m (q_trait q) (Num s) En\<rparr>)
                     (questions m) ss) l False))"
proof -
  obtain st' where
    "answer_all m l (map (\<lambda>s. String_number (Num s)) ss)
             (beginAssessment AssessmentStep_init,
              handleInfoSubmit u (handleLanguageSelect l App_init)) =
           Inr (st', handleAssessmentComplete
                  (map2 (\<lambda>q s. \<lparr>a_id = q_id q, trait = q_trait q, score = Num s,
                                 feedback = getIndividualFeedback m (q_trait q) (Num s) En\<rparr>)
                     (questions m) ss) (handleInfoSubmit u (handleLanguageSelect l App_init)))"
    and "getStepComponent
               (handleAssessmentComplete
                  (map2 (\<lambda>q s. \<lparr>a_id = q_id q, trait = q_trait q, score = Num s,
                                 feedback = getIndividualFeedback m (q_trait q) (Num s) En\<rparr>)
                     (questions m) ss) (handleInfoSubmit u (handleLanguageSelect l App_init))) =
             ResultsStep_view (Num (sum_list ss)) u
               (map2 (\<lambda>q s. \<lparr>a_id = q_id q, trait = q_trait q, score = Num s,
                              feedback = getIndividualFeedback m (q_trait q) (Num s) En\<rparr>)
                  (questions m) ss) (lang (handleLanguageSelect l App_init))"
    using complete_session [OF assms, of l u "handleLanguageSelect l App_init"] by blast
  then show ?thesis
    by (simp add: session_effects_def handleLanguageSelect_def)
qed

text \<open>
  C6. Two sessions that differ only in the chosen language do the same to the world when
  the results step is entered: the same certificate data, the same request body and the
  same toasts, whatever radio values were answered. For a session that answers every
  question with a score in \<open>{1, 2, 3}\<close>, the body sent to \<open>/api/log\<close> holds for each answer the
  feedback that \<open>getIndividualFeedback\<close> gives for English, and as final assessment text
  what \<open>getFinalAssessment\<close> and \<open>getFinalFeedback\<close> give for English, in either language.
\<close>

theorem persisted_record_language_independent:
  "session_effects m En u vs env = session_effects m Hi u vs env
   \<and> (length ss = length (questions m) \<and> questions m \<noteq> [] \<and> (\<forall>s\<in>set ss. s \<in> {1, 2, 3}) \<longrightarrow>
      (\<exists>effs body.
         session_effects m l u (map (\<lambda>s. String_number (Num s)) ss) env = Inr effs
         \<and> filter is_fetch effs = [FetchPost ''/api/log'' body]
         \<and> map feedback (s_assessmentData body) =
             map2 (\<lambda>q s. getIndividualFeedback m (q_trait q) (Num s) En) (questions m) ss
         \<and> s_finalAssessmentText body =
             getFinalAssessment m (getFinalFeedback m (Num (sum_list ss)) En) En))"
proof (intro conjI impI)
  show "session_effects m En u vs env = session_effects m Hi u vs env"
    by (rule session_effects_language)
next
  assume h: "length ss = length (questions m) \<and> questions m \<noteq> [] \<and> (\<forall>s\<in>set ss. s \<in> {1, 2, 3})"
  let ?as = "map2 (\<lambda>q s. \<lparr>a_id = q_id q, trait = q_trait q, score = Num s,
                 feedback = getIndividualFeedback m (q_trait q) (Num s) En\<rparr>) (questions m) ss"
  let ?body = "submissionData m (date_submission env) (Num (sum_list ss)) u ?as"
  let ?effs = "snd (ResultsStep_effect m env (Num (sum_list ss)) u ?as l False)"
  have run: "session_effects m l u (map (\<lambda>s. String_number (Num s)) ss) env = Inr ?effs"
    using h by (intro session_effects_complete) simp_all
  have f: "filter is_fetch ?effs = [FetchPost ''/api/log'' ?body]"
    by (simp add: ResultsStep_effect_def logSubmission_def split: option.splits)
  have fb: "map feedback (s_assessmentData ?body) =
             map2 (\<lambda>q s. getIndividualFeedback m (q_trait q) (Num s) En) (questions m) ss"
    using h by (intro nth_equalityI) (simp_all add: submissionData_def)
  have fin: "s_finalAssessmentText ?body =
             getFinalAssessment m (getFinalFeedback m (Num (sum_list ss)) En) En"
    by (simp add: submissionData_def)
  show "\<exists>effs body.
         session_effects m l u (map (\<lambda>s. String_number (Num s)) ss) env = Inr effs
         \<and> filter is_fetch effs = [FetchPost ''/api/log'' body]
         \<and> map feedback (s_assessmentData body) =
             map2 (\<lambda>q s. getIndividualFeedback m (q_trait q) (Num s) En) (questions m) ss
         \<and> s_finalAssessmentText body =
             getFinalAssessment m (getFinalFeedback m (Num (sum_list ss)) En) En"
    using run f fb fin by blast
qed


theorem persisted_record_language_independent_witness:
  "session_effects sample_data En sample_user
       (map (\<lambda>s. String_number (Num s)) [3, 2, 1, 3, 3, 1]) (sample_env (FetchRejected ''Failed to fetch'')) =
     session_effects sample_data Hi sample_user
       (map (\<lambda>s. String_number (Num s)) [3, 2, 1, 3, 3, 1]) (sample_env (FetchRejected ''Failed to fetch''))
   \<and> length [3, 2, 1, 3, 3, 1 :: int] = length (questions sample_data)
   \<and> questions sample_data \<noteq> []
   \<and> set [3, 2, 1, 3, 3, 1 :: int] \<subseteq> {1, 2, 3}
   \<and> (\<exists>effs body.
         session_effects sample_data Hi sample_user
           (map (\<lambda>s. String_number (Num s)) [3, 2, 1, 3, 3, 1])
           (sample_env (FetchRejected ''Failed to fetch'')) = Inr effs
         \<and> filter is_fetch effs = [FetchPost ''/api/log'' body]
         \<and> map feedback (s_assessmentData body) =
             [''en:Gratitude:3'', ''en:Resilience:2'', ''en:Empathy:1'', ''en:Sociability:3'',
              ''en:Social Cognition:3'', ''en:Courage:1'']
         \<and> s_finalAssessmentText body = ''en:total:13'')"
  using persisted_record_language_independent [of sample_data sample_user
      "map (\<lambda>s. String_number (Num s)) [3, 2, 1, 3, 3, 1]"
      "sample_env (FetchRejected ''Failed to fetch'')" "[3, 2, 1, 3, 3, 1]" Hi]
  by (simp add: sample_data_def sample_question_def string_of_nat.simps digit_of_def)

subsection \<open>A failed submission\<close>

lemma caught_failure:
  "r = FetchRejected msg \<or> r = Response False body \<Longrightarrow> \<exists>reason. logSubmission_caught r = Some reason"
  by (auto simp add: logSubmission_caught_def split: sum.splits)

lemma fetch_count_first_run:
  "length (filter is_fetch (snd (ResultsStep_effects m ((env, sc, u, ad, l) # runs) False))) = 1"
proof -
  obtain effs1 where h: "ResultsStep_effect m env sc u ad l False = (True, effs1)"
    by (simp add: ResultsStep_effect_def)
  have "snd (ResultsStep_effects m ((env, sc, u, ad, l) # runs) False) =
          snd (ResultsStep_effect m env sc u ad l False)"
    by (simp add: h ResultsStep_effects_logged)
  then show ?thesis by (simp add: fetch_count_effect)
qed

text \<open>
  C8. When the request to \<open>/api/log\<close> rejects or its response is not OK, the effect of the
  results step still returns normally: it has written the certificate data (when
  \<open>localStorage\<close> takes it), sent the request once, and shown one destructive toast titled
  \<open>Data Submission Failed\<close> with the reason. No later run of the effect sends the request
  again, no callback of the App is called (the wizard stays on the results step), and the
  certificate page finds the certificate data that was written.
\<close>

theorem submission_failure_not_blocking:
  assumes "log_result env = FetchRejected msg \<or> log_result env = Response False body"
  shows "\<exists>reason.
           ResultsStep_effect m env sc u ad l False =
             (True,
              (if setItem_ok env
               then [LocalStorageSetItem ''anandakAssessmentCertificate''
                       (certificateData m (date_certificate env) sc u ad)]
               else [ShowToast \<lparr>t_title = ''Could not save certificate'',
                                 t_description =
                                   ''There was an issue preparing your certificate data.'',
                                 variant = ''destructive''\<rparr>])
              @ [FetchPost ''/api/log'' (submissionData m (date_submission env) sc u ad),
                 ShowToast \<lparr>t_title = ''Data Submission Failed'',
                             t_description =
                               ''Your assessment results could not be saved. Reason: '' @ reason,
                             variant = ''destructive''\<rparr>])
         \<and> length (filter is_fetch
               (snd (ResultsStep_effects m ((env, sc, u, ad, l) # runs) False))) = 1
         \<and> foldl deliver app (snd (ResultsStep_effect m env sc u ad l False)) = app
         \<and> (if setItem_ok env
            then CertificatePage
                   (foldl store_effect st (snd (ResultsStep_effect m env sc u ad l False))) =
                 ShowCertificate (certificateData m (date_certificate env) sc u ad)
            else CertificatePage
                   (foldl store_effect st (snd (ResultsStep_effect m env sc u ad l False))) =
                 CertificatePage st)"
proof -
  obtain reason where c: "logSubmission_caught (log_result env) = Some reason"
    using caught_failure assms by blast
  have 1: "ResultsStep_effect m env sc u ad l False =
             (True,
              (if setItem_ok env
               then [LocalStorageSetItem ''anandakAssessmentCertificate''
                       (certificateData m (date_certificate env) sc u ad)]
               else [ShowToast \<lparr>t_title = ''Could not save certificate'',
                                 t_description =
                                   ''There was an issue preparing your certificate data.'',
                                 variant = ''destructive''\<rparr>])
              @ [FetchPost ''/api/log'' (submissionData m (date_submission env) sc u ad),
                 ShowToast \<lparr>t_title = ''Data Submission Failed'',
                             t_description =
                               ''Your assessment results could not be saved. Reason: '' @ reason,
                             variant = ''destructive''\<rparr>])"
    by (simp add: ResultsStep_effect_def logSubmission_def c)
  have 2: "length (filter is_fetch
               (snd (ResultsStep_effects m ((env, sc, u, ad, l) # runs) False))) = 1"
    by (rule fetch_count_first_run)
  have 3: "foldl deliver app (snd (ResultsStep_effect m env sc u ad l False)) = app"
    by (rule deliver_results_effects)
  have 4: "(if setItem_ok env
            then CertificatePage
                   (foldl store_effect st (snd (ResultsStep_effect m env sc u ad l False))) =
                 ShowCertificate (certificateData m (date_certificate env) sc u ad)
            else CertificatePage
                   (foldl store_effect st (snd (ResultsStep_effect m env sc u ad l False))) =
                 CertificatePage st)"
    by (simp add: 1 CertificatePage_def)
  show ?thesis using 1 2 3 4 by blast
qed

theorem submission_failure_not_blocking_witness:
  "log_result (sample_env (Response False (Inr (JObj
       [(''success'', JBool False), (''error'', JStr ''Failed to submit assessment''),
        (''details'', JStr ''Unknown error'')])))) =
     Response False (Inr (JObj
       [(''success'', JBool False), (''error'', JStr ''Failed to submit assessment''),
        (''details'', JStr ''Unknown error'')]))
   \<and> ResultsStep_effect sample_data
       (sample_env (Response False (Inr (JObj
          [(''success'', JBool False), (''error'', JStr ''Failed to submit assessment''),
           (''details'', JStr ''Unknown error'')]))))
       (Num 6) sample_user sample_answers Hi False =
     (True,
      [LocalStorageSetItem ''anandakAssessmentCertificate'' sample_certificate,
       FetchPost ''/api/log''
         (submissionData sample_data ''November 3, 2026'' (Num 6) sample_user sample_answers),
       ShowToast \<lparr>t_title = ''Data Submission Failed'',
                   t_description =
                     ''Your assessment results could not be saved. Reason: Failed to submit assessment'',
                   variant = ''destructive''\<rparr>])
   \<and> CertificatePage
       (foldl store_effect Map.empty
          (snd (ResultsStep_effect sample_data
             (sample_env (Response False (Inr (JObj
                [(''success'', JBool False), (''error'', JStr ''Failed to submit assessment''),
                 (''details'', JStr ''Unknown error'')]))))
             (Num 6) sample_user sample_answers Hi False))) =
     ShowCertificate sample_certificate"
  using submission_failure_not_blocking [of
      "sample_env (Response False (Inr (JObj
         [(''success'', JBool False), (''error'', JStr ''Failed to submit assessment''),
          (''details'', JStr ''Unknown error'')])))"
      "''''" "Inr (JObj
         [(''success'', JBool False), (''error'', JStr ''Failed to submit assessment''),
          (''details'', JStr ''Unknown error'')])"
      sample_data "Num 6" sample_user sample_answers Hi "[]" App_init Map.empty]
  by (simp add: sample_env_def sample_certificate_def ResultsStep_effect_def logSubmission_def
      logSubmission_caught_def CertificatePage_def)

subsection \<open>What the certificate renders\<close>

lemma detailed_calls:
  "snd (CertificateContent m d l st) =
     map (\<lambda>item. IndividualFeedback (trait item) (score item) l) (detailedResults d)"
  by (simp add: CertificateContent_def detailed_row_def Let_def comp_def)








text \<open>
  C10. The detailed results of a certificate variant are, in every render pass, the stored
  answers whose trait is not \<open>Courage\<close>, in their order, and no feedback is resolved for the
  trait \<open>Courage\<close>. The total score sums the scores of all stored answers, and the
  submission body and the row inserted by the sink keep all answers and the score of the
  \<open>Courage\<close> answer.
\<close>

theorem certificate_omits_courage:
  "rows (fst (CertificateContent m d l st)) =
     map (\<lambda>item. fst (detailed_row m l item))
       (filter (\<lambda>item. trait item \<noteq> ''Courage'') (assessmentData d))
   \<and> set (detailedResults d) = {a \<in> set (assessmentData d). trait a \<noteq> ''Courage''}
   \<and> (\<forall>c \<in> set (snd (CertificateContent m d l st)). \<forall>s l'. c \<noteq> IndividualFeedback ''Courage'' s l')
   \<and> (map score (assessmentData d) = map Num ss \<longrightarrow>
        reduce_score (assessmentData d) = Num (sum_list ss))
   \<and> s_assessmentData (submissionData m today sc u (assessmentData d)) = assessmentData d
   \<and> assessment_data_col
        (saveAssessmentToSupabase_row (submissionData m today sc u (assessmentData d))) =
       assessmentData d
   \<and> courage_score
        (saveAssessmentToSupabase_row (submissionData m today sc u (assessmentData d))) =
       trait_score (assessmentData d) ''Courage''"
proof -
  have total: "map score (assessmentData d) = map Num ss \<longrightarrow>
        reduce_score (assessmentData d) = Num (sum_list ss)"
    using foldl_num_add_scores [of "assessmentData d" ss 0] by (simp add: reduce_score_def)
  have calls: "\<forall>c \<in> set (snd (CertificateContent m d l st)). \<forall>s l'. c \<noteq> IndividualFeedback ''Courage'' s l'"
    by (auto simp add: detailed_calls detailedResults_def)
  show ?thesis
    using total calls
    by (simp add: CertificateContent_def detailedResults_def Let_def comp_def
        submissionData_def saveAssessmentToSupabase_row_def)
qed

theorem certificate_omits_courage_witness:
  "map row_trait (rows (fst (CertificateContent sample_data sample_certificate En
       (CertificateContent_init sample_certificate)))) =
     [''Gratitude'', ''Empathy'']
   \<and> map score (assessmentData sample_certificate) = map Num [3, 2, 1]
   \<and> reduce_score (assessmentData sample_certificate) = Num 6
   \<and> courage_score
        (saveAssessmentToSupabase_row
           (submissionData sample_data ''November 3, 2026'' (Num 6) sample_user
              (assessmentData sample_certificate))) = Num 2"
  using certificate_omits_courage [of sample_data sample_certificate En
      "CertificateContent_init sample_certificate" "[3, 2, 1]"
      "''November 3, 2026''" "Num 6" sample_user]
  by (simp add: CertificateContent_def detailed_row_def detailedResults_def sample_certificate_def
      certificateData_def sample_answers_def sample_data_def sample_translations_def
      UserInfo.extend_def CertificateData.fields_def submissionData_def
      saveAssessmentToSupabase_row_def trait_score_def reduce_score_def)

subsection \<open>The transliteration route\<close>

lemma get_index_Inl: "get_index v i = Inl e \<Longrightarrow> \<not> truthy v"
  by (cases v) auto

lemma transliteratedText_total: "\<exists>r. transliteratedText data = Inr r"
proof -
  have "transliteratedText data \<noteq> Inl e" for e
    by (auto simp add: transliteratedText_def split: sum.splits if_splits dest: get_index_Inl)
  then show ?thesis by (cases "transliteratedText data") auto
qed

lemma transliterate_catch_used:
  "bodyUsed req \<Longrightarrow>
     transliterate_catch req = Inr (JsonResponse (JObj [(''transliteration'', JStr [])]) 200)"
  by (simp add: transliterate_catch_def req_json_def)

text \<open>
  What the catch block echoes: the request body was read by the try block, so the second
  read rejects and the text is the empty string, whatever the request carried.
\<close>

lemma transliterate_catch_path:
  "s \<noteq> [] \<Longrightarrow>
   upstream = FetchRejected msg \<or> upstream = Response False body \<or> upstream = Response True (Inl msg) \<Longrightarrow>
     transliterate_POST (text_request s) upstream =
       Inr (JsonResponse (JObj [(''transliteration'', JStr [])]) 200)"
  by (auto simp add: transliterate_POST_def text_request_def req_json_def transliterate_catch_def)

text \<open>
  C9 as stated fails: a request whose text is the empty string is answered with status 400
  and an error object, not with a transliteration, even when the upstream service would
  answer.
\<close>

theorem transliterate_empty_text_counterexample:
  "transliterate_POST (text_request [])
     (Response True (Inr (JArr [JStr ''SUCCESS'', JArr [JArr [JStr [], JArr [JStr ''x'']]]]))) =
     Inr (JsonResponse (JObj [(''error'', JStr ''Text is required'')]) 400)"
  by (simp add: transliterate_POST_def text_request_def req_json_def)

text \<open>
  C9, amended. A request \<open>{ text: s }\<close> with empty \<open>s\<close> is answered with status 400 and
  \<open>{ error: 'Text is required' }\<close>. With a non-empty \<open>s\<close> the handler always answers with
  status 200 and an object \<open>{ transliteration: t }\<close>, never with an error; when the upstream
  response is OK and its body parses, \<open>t\<close> is the first candidate of the body if the body
  has the success shape, and the input text otherwise.
\<close>

theorem transliterate_response:
  "\<exists>t. transliterate_POST (text_request s) upstream =
         (if s = [] then Inr (JsonResponse (JObj [(''error'', JStr ''Text is required'')]) 400)
          else Inr (JsonResponse (JObj [(''transliteration'', t)]) 200))
       \<and> (\<forall>data. s \<noteq> [] \<and> upstream = Response True (Inr data) \<longrightarrow>
            t = (case transliteratedText data of Inr (Some c) \<Rightarrow> c | _ \<Rightarrow> JStr s))"
proof (cases "s = []")
  case True
  then show ?thesis
    by (simp add: transliterate_POST_def text_request_def req_json_def)
next
  case False
  let ?used = "text_request s\<lparr>bodyUsed := True\<rparr>"
  have c: "transliterate_catch ?used = Inr (JsonResponse (JObj [(''transliteration'', JStr [])]) 200)"
    by (intro transliterate_catch_used) simp
  show ?thesis
  proof (cases upstream)
    case (FetchRejected msg)
    then show ?thesis
      using False c by (simp add: transliterate_POST_def text_request_def req_json_def)
  next
    case (Response ok body)
    show ?thesis
    proof (cases "ok \<and> (\<exists>data. body = Inr data)")
      case False
      then show ?thesis
        using \<open>s \<noteq> []\<close> c Response
        by (cases body) (auto simp add: transliterate_POST_def text_request_def req_json_def)
    next
      case True
      then obtain data where d: "ok" "body = Inr data" by blast
      obtain r where r: "transliteratedText data = Inr r"
        using transliteratedText_total by blast
      show ?thesis
        using \<open>s \<noteq> []\<close> Response d r
        by (cases r) (simp_all add: transliterate_POST_def text_request_def req_json_def)
    qed
  qed
qed

theorem transliterate_response_witness:
  "transliterate_POST (text_request ''Ram'')
     (Response True (Inr (JArr [JStr ''SUCCESS'', JArr [JArr [JStr ''Ram'', JArr [JStr ''raam'']]]]))) =
     Inr (JsonResponse (JObj [(''transliteration'', JStr ''raam'')]) 200)
   \<and> transliterate_POST (text_request ''Ram'') (Response True (Inr (JArr [JStr ''FAILED'']))) =
     Inr (JsonResponse (JObj [(''transliteration'', JStr ''Ram'')]) 200)"
  using transliterate_response [of "''Ram''"
      "Response True (Inr (JArr [JStr ''SUCCESS'', JArr [JArr [JStr ''Ram'', JArr [JStr ''raam'']]]]))"]
    transliterate_response [of "''Ram''" "Response True (Inr (JArr [JStr ''FAILED'']))"]
  by (simp add: transliteratedText_def)

subsection \<open>State and district of the personal information\<close>

text \<open>
  What holds of the form after every event: the offered districts are those of the
  selected state, and a district that is set was picked among them.
\<close>

lemma form_event_invariant:
  assumes "districts fs = districts_for table (f_state (form_values fs))"
    and "f_state (form_values fs) \<noteq> [] \<longrightarrow>
           (\<forall>d. f_district (form_values fs) = Some d \<longrightarrow> d \<in> set (districts fs))"
  shows "districts (fst (form_event e table fs ev)) =
           districts_for table (f_state (form_values (fst (form_event e table fs ev))))
         \<and> (f_state (form_values (fst (form_event e table fs ev))) \<noteq> [] \<longrightarrow>
              (\<forall>d. f_district (form_values (fst (form_event e table fs ev))) = Some d \<longrightarrow>
                 d \<in> set (districts (fst (form_event e table fs ev)))))"
proof (cases ev)
  case (SelectState i)
  then show ?thesis
    using assms by (auto simp add: state_effect_def Let_def districts_for_def)
next
  case (SelectDistrict i)
  then show ?thesis using assms by auto
next
  case Submit
  then show ?thesis using assms by (auto split: sum.splits)
qed (use assms in auto)

lemma form_event_submitted:
  assumes "districts fs = districts_for table (f_state (form_values fs))"
    and "f_state (form_values fs) \<noteq> [] \<longrightarrow>
           (\<forall>d. f_district (form_values fs) = Some d \<longrightarrow> d \<in> set (districts fs))"
    and "OnSubmit u \<in> set (snd (form_event e table fs ev))"
  shows "state u \<noteq> [] \<and> district u \<in> set (districts_for table (state u))"
proof (cases ev)
  case Submit
  then obtain vals where ok: "formSchema e (form_values fs) = Inr vals" and u: "u = vals"
    using assms(3) by (auto simp add: handleFormSubmit_def split: sum.splits)
  have st: "f_state (form_values fs) \<noteq> []" and "f_district (form_values fs) \<noteq> None"
    and vals: "state vals = f_state (form_values fs)"
       "f_district (form_values fs) = Some (district vals)"
    using ok by (auto simp add: formSchema_def Let_def split: if_splits option.splits number.splits)
  then show ?thesis using assms(1,2) u by auto
qed (use assms(3) in \<open>auto split: if_splits\<close>)

lemma form_events_submitted:
  assumes "districts fs = districts_for table (f_state (form_values fs))"
    and "f_state (form_values fs) \<noteq> [] \<longrightarrow>
           (\<forall>d. f_district (form_values fs) = Some d \<longrightarrow> d \<in> set (districts fs))"
    and "OnSubmit u \<in> set (snd (form_events e table fs evs))"
  shows "state u \<noteq> [] \<and> district u \<in> set (districts_for table (state u))"
  using assms
proof (induction evs arbitrary: fs)
  case Nil
  then show ?case by simp
next
  case (Cons ev evs)
  obtain fs1 effs1 where s1: "form_event e table fs ev = (fs1, effs1)"
    by (cases "form_event e table fs ev")
  obtain fs2 effs2 where s2: "form_events e table fs1 evs = (fs2, effs2)"
    by (cases "form_events e table fs1 evs")
  have inv1: "districts fs1 = districts_for table (f_state (form_values fs1))"
    "f_state (form_values fs1) \<noteq> [] \<longrightarrow>
       (\<forall>d. f_district (form_values fs1) = Some d \<longrightarrow> d \<in> set (districts fs1))"
    using form_event_invariant [OF Cons.prems(1,2), of e ev] s1 by auto
  have "OnSubmit u \<in> set effs1 \<or> OnSubmit u \<in> set effs2"
    using Cons.prems(3) s1 s2 by simp
  then show ?case
  proof
    assume "OnSubmit u \<in> set effs1"
    then show ?thesis
      using form_event_submitted [OF Cons.prems(1,2), of u e ev] s1 by simp
  next
    assume "OnSubmit u \<in> set effs2"
    then show ?thesis
      using Cons.IH [OF inv1] s2 by simp
  qed
qed

text \<open>
  C5 as stated fails: the schema accepts the personal information with state Madhya
  Pradesh and district Mumbai, although Mumbai is not among the districts of Madhya Pradesh
  in the table, and submitting a form that holds these values calls \<open>onSubmit\<close>, which moves
  the wizard to the assessment step.
\<close>

theorem district_mismatch_counterexample:
  "formSchema (\<lambda>_. False) mismatched_values =
     Inr \<lparr>name = ''Test User'', name_hi = ''Test User'', age = Num 30, gender = ''Male'',
          countryCode = ''+91'', mobile = ''9999999999'', email = Some [],
          state = ''Madhya Pradesh'', district = ''Mumbai''\<rparr>
   \<and> ''Mumbai'' \<notin> set (districts_for sample_table ''Madhya Pradesh'')
   \<and> step (foldl deliver (handleLanguageSelect En App_init)
        (snd (form_event (\<lambda>_. False) sample_table
           \<lparr>form_values = mismatched_values,
            districts = districts_for sample_table ''Madhya Pradesh'',
            form_errors = []\<rparr> Submit))) = StepAssessment"
  by (simp add: formSchema_def mismatched_values_def districts_for_def sample_table_def
      handleFormSubmit_def handleInfoSubmit_def handleLanguageSelect_def App_init_def)

text \<open>
  C5, amended. The schema asks of the district only that it is a non-empty string: a
  missing district is rejected with a field-level issue, a rejected submission keeps the
  form where it is with its issues and calls nothing, and two non-empty districts are
  accepted or rejected alike. That the district belongs to the selected state is kept by
  the selectors: the district list offers the districts of the selected state and a change
  of the state resets the district, so every personal information that the form submits,
  after any sequence of user actions on the mounted form, has a district of its state.
\<close>

theorem district_belongs_to_state:
  "(OnSubmit u \<in> set (snd (form_events e table (UserInfoStep_init table) evs)) \<longrightarrow>
      state u \<noteq> [] \<and> district u \<in> set (districts_for table (state u)))
   \<and> (\<exists>issues. formSchema e (v\<lparr>f_district := None\<rparr>) = Inl issues
        \<and> (''district'', ''Please select your district.'') \<in> set issues)
   \<and> (\<exists>issues. formSchema e (v\<lparr>f_district := Some []\<rparr>) = Inl issues
        \<and> (''district'', ''Please select your district.'') \<in> set issues)
   \<and> (formSchema e (form_values fs) = Inl issues' \<longrightarrow>
        form_event e table fs Submit = (fs\<lparr>form_errors := issues'\<rparr>, []))
   \<and> (d \<noteq> [] \<and> d' \<noteq> [] \<longrightarrow>
        isl (formSchema e (v\<lparr>f_district := Some d\<rparr>)) = isl (formSchema e (v\<lparr>f_district := Some d'\<rparr>)))"
proof (intro conjI impI)
  assume "OnSubmit u \<in> set (snd (form_events e table (UserInfoStep_init table) evs))"
  then have "state u \<noteq> [] \<and> district u \<in> set (districts_for table (state u))"
    by (intro form_events_submitted [of "UserInfoStep_init table" table u e evs])
       (simp_all add: UserInfoStep_init_def defaultValues_def)
  then show "state u \<noteq> []" and "district u \<in> set (districts_for table (state u))"
    by simp_all
next
  show "\<exists>issues. formSchema e (v\<lparr>f_district := None\<rparr>) = Inl issues
        \<and> (''district'', ''Please select your district.'') \<in> set issues"
    by (simp add: formSchema_def Let_def)
next
  show "\<exists>issues. formSchema e (v\<lparr>f_district := Some []\<rparr>) = Inl issues
        \<and> (''district'', ''Please select your district.'') \<in> set issues"
    by (simp add: formSchema_def Let_def)
next
  assume "formSchema e (form_values fs) = Inl issues'"
  then show "form_event e table fs Submit = (fs\<lparr>form_errors := issues'\<rparr>, [])"
    by simp
next
  assume "d \<noteq> [] \<and> d' \<noteq> []"
  then show "isl (formSchema e (v\<lparr>f_district := Some d\<rparr>)) = isl (formSchema e (v\<lparr>f_district := Some d'\<rparr>))"
    by (simp add: formSchema_def Let_def)
qed

theorem district_belongs_to_state_witness:
  "OnSubmit \<lparr>name = ''Test User'', name_hi = ''Test User'', age = Num 30, gender = ''Male'',
            countryCode = ''+91'', mobile = ''9999999999'', email = Some [],
            state = ''Madhya Pradesh'', district = ''Bhopal''\<rparr>
     \<in> set (snd (form_events (\<lambda>_. False) sample_table (UserInfoStep_init sample_table)
          [TypeName ''Test User'', SetNameHi ''Test User'', SetAge (Some (Num 30)),
           SelectGender ''Male'', TypeMobile ''9999999999'', SelectState 1, SelectDistrict 0,
           SelectState 0, Submit, SelectDistrict 0, Submit]))
   \<and> ''Bhopal'' \<in> set (districts_for sample_table ''Madhya Pradesh'')
   \<and> formSchema (\<lambda>_. False) (form_values (UserInfoStep_init sample_table)) =
       Inl [(''name'', ''Name must be at least 2 characters.''),
            (''name_hi'', ''Kripya Hindi mein naam darj karen.''),
            (''age'', ''Expected number, received nan''),
            (''gender'', ''Please select your gender.''),
            (''mobile'', ''Please enter your mobile number.''),
            (''district'', ''Please select your district.'')]
   \<and> form_event (\<lambda>_. False) sample_table (UserInfoStep_init sample_table) Submit =
       ((UserInfoStep_init sample_table)
          \<lparr>form_errors := [(''name'', ''Name must be at least 2 characters.''),
            (''name_hi'', ''Kripya Hindi mein naam darj karen.''),
            (''age'', ''Expected number, received nan''),
            (''gender'', ''Please select your gender.''),
            (''mobile'', ''Please enter your mobile number.''),
            (''district'', ''Please select your district.'')]\<rparr>, [])
   \<and> ''Mumbai'' \<noteq> [] \<and> ''Bhopal'' \<noteq> []
   \<and> isl (formSchema (\<lambda>_. False) (mismatched_values\<lparr>f_district := Some ''Mumbai''\<rparr>)) =
       isl (formSchema (\<lambda>_. False) (mismatched_values\<lparr>f_district := Some ''Bhopal''\<rparr>))"
  using district_belongs_to_state [of
      "\<lparr>name = ''Test User'', name_hi = ''Test User'', age = Num 30, gender = ''Male'',
            countryCode = ''+91'', mobile = ''9999999999'', email = Some [],
            state = ''Madhya Pradesh'', district = ''Bhopal''\<rparr>"
      "\<lambda>_. False" sample_table
      "[TypeName ''Test User'', SetNameHi ''Test User'', SetAge (Some (Num 30)),
           SelectGender ''Male'', TypeMobile ''9999999999'', SelectState 1, SelectDistrict 0,
           SelectState 0, Submit, SelectDistrict 0, Submit]"
      mismatched_values "UserInfoStep_init sample_table"
      "[(''name'', ''Name must be at least 2 characters.''),
            (''name_hi'', ''Kripya Hindi mein naam darj karen.''),
            (''age'', ''Expected number, received nan''),
            (''gender'', ''Please select your gender.''),
            (''mobile'', ''Please enter your mobile number.''),
            (''district'', ''Please select your district.'')]"
      "''Mumbai''" "''Bhopal''"]
  by (simp add: UserInfoStep_init_def defaultValues_def sample_table_def districts_for_def
      state_effect_def formSchema_def handleFormSubmit_def is_white_space_def
      mismatched_values_def)

end
